theory Spec2Isabelle
  imports Main
begin

section \<open>EatAlyzer: the upload session and the analysis client\<close>

text \<open>
  The page component \<open>FoodAnalysisApp\<close> keeps five React state cells and changes them in two
  event handlers, \<open>handleFileChange\<close> and \<open>handleAnalyze\<close>; the module \<open>app/api/analyze.ts\<close>
  holds the analysis client \<open>analyzeFoodImage\<close> and its helper \<open>fileToBase64\<close>.
  The handlers are embedded as functions from the session to the new session together with
  the asynchronous work they start; the completion of that work is a function of its own,
  so that any interleaving of the handlers and the completions can be written down.
\<close>

subsection \<open>Data model\<close>

text \<open>
  The browser's \<open>File\<close>: the handlers read \<open>file.type\<close> and the view shows \<open>file.name\<close>.
  (The record field \<open>filename\<close> is the source's \<open>name\<close>.)
\<close>

record File =
  filename :: string
  type :: string

text \<open>
  The interface \<open>FoodAnalysisResponse\<close>. JavaScript numbers are left as a type parameter:
  no function below computes with them, they are only copied.
\<close>

record 'n Fats =
  total :: 'n
  saturated :: 'n
  unsaturated :: 'n
  trans :: 'n

record 'n NutritionalInfo =
  fats :: "'n Fats"
  protein :: 'n
  carbohydrates :: 'n
  sugar :: 'n
  fiber :: 'n

record HealthAssessment =
  isHealthy :: bool
  recommendedConsumption :: string
  warnings :: "string list"
  benefits :: "string list"

record 'n FoodAnalysisResponse =
  calories :: 'n
  contents :: "string list"
  nutritionalInfo :: "'n NutritionalInfo"
  healthAssessment :: HealthAssessment

text \<open>
  The five \<open>useState\<close> cells of the component. The controller never looks inside an analysis
  result, so its type is the parameter \<open>'r\<close>.
\<close>

record 'r session =
  selectedFile :: "File option"
  imagePreview :: "string option"
  analysisResult :: "'r option"
  isLoading :: bool
  error :: "string option"

definition initial :: "'r session" where
  "initial = \<lparr>selectedFile = None, imagePreview = None, analysisResult = None,
              isLoading = False, error = None\<rparr>"

text \<open>
  The asynchronous work a handler starts: \<open>reader.readAsDataURL(file)\<close> with the
  \<open>onload\<close> callback that stores the preview, and the call \<open>analyzeFoodImage(selectedFile)\<close>,
  which is the only place a network request is made.
\<close>

datatype command = ReadAsDataURL File | AnalyzeFoodImage File

subsection \<open>The presentation controller\<close>

text \<open>\<open>String.prototype.startsWith\<close>.\<close>

definition startsWith :: "string \<Rightarrow> string \<Rightarrow> bool" where
  "startsWith s p = (take (length p) s = p)"

text \<open>
  \<open>event.target.files && event.target.files[0]\<close>: the file list may be \<open>null\<close> or empty,
  and then the condition is falsy.
\<close>

fun first_file :: "File list option \<Rightarrow> File option" where
  "first_file None = None"
| "first_file (Some []) = None"
| "first_file (Some (f # fs)) = Some f"

definition handleFileChange :: "File list option \<Rightarrow> 'r session \<Rightarrow> 'r session \<times> command list" where
  "handleFileChange files s =
     (let s1 = s\<lparr>error := None\<rparr> in
      case first_file files of
        None \<Rightarrow> (s1, [])
      | Some f \<Rightarrow>
          if \<not> startsWith (type f) ''image/''
          then (s1\<lparr>error := Some ''Please select an image file''\<rparr>, [])
          else (s1\<lparr>selectedFile := Some f, analysisResult := None\<rparr>, [ReadAsDataURL f]))"

text \<open>The callback \<open>reader.onload\<close> of the preview read; \<open>d\<close> is the data URL the reader produced.\<close>

definition reader_onload :: "string \<Rightarrow> 'r session \<Rightarrow> 'r session" where
  "reader_onload d s = s\<lparr>imagePreview := Some d\<rparr>"

text \<open>
  \<open>handleAnalyze\<close> up to its \<open>await\<close>: the guard on the selected file, then the loading flag
  and the error are set and the analysis is started.
\<close>

definition handleAnalyze :: "'r session \<Rightarrow> 'r session \<times> command list" where
  "handleAnalyze s =
     (case selectedFile s of
        None \<Rightarrow> (s\<lparr>error := Some ''Please select an image first''\<rparr>, [])
      | Some f \<Rightarrow> (s\<lparr>isLoading := True, error := None\<rparr>, [AnalyzeFoodImage f]))"

text \<open>
  \<open>handleAnalyze\<close> after the \<open>await\<close>: the \<open>try\<close> branch stores the result, the \<open>catch\<close>
  branch stores the fixed message, \<open>finally\<close> clears the loading flag. \<open>Inl\<close> is the
  rejection of the promise, \<open>Inr\<close> the value it resolved with. The client returns its
  value unchecked, so that value may be \<open>null\<close>, here \<open>None\<close>; \<open>setAnalysisResult(result)\<close>
  writes it into the cell as it is, and \<open>null\<close> is the empty cell.
\<close>

definition handleAnalyze_settled :: "string + 'r option \<Rightarrow> 'r session \<Rightarrow> 'r session" where
  "handleAnalyze_settled outcome s =
     (case outcome of
        Inr result \<Rightarrow> s\<lparr>analysisResult := result\<rparr>
      | Inl err \<Rightarrow> s\<lparr>error := Some ''Failed to analyze image. Please try again.''\<rparr>)
     \<lparr>isLoading := False\<rparr>"

text \<open>
  The events of a session, in the order they happen: a change of the file input, the end of
  a preview read, a click on the analyse button, the end of an analysis.
\<close>

datatype 'r event =
    FileChange "File list option"
  | ReaderLoad string
  | AnalyzeClick
  | AnalyzeSettled "string + 'r option"

fun step :: "'r session \<Rightarrow> 'r event \<Rightarrow> 'r session" where
  "step s (FileChange files) = fst (handleFileChange files s)"
| "step s (ReaderLoad d) = reader_onload d s"
| "step s AnalyzeClick = fst (handleAnalyze s)"
| "step s (AnalyzeSettled outcome) = handleAnalyze_settled outcome s"

definition run :: "'r event list \<Rightarrow> 'r session" where
  "run evs = foldl step initial evs"

text \<open>
  \<open>exclusive\<close>: the cells \<open>analysisResult\<close> and \<open>error\<close> are not both set.
\<close>

definition exclusive :: "'r session \<Rightarrow> bool" where
  "exclusive s = (analysisResult s = None \<or> error s = None)"

subsection \<open>Chart data transforms\<close>

text \<open>One bar of a chart: the objects \<open>{ name, value, fill }\<close> handed to the chart library.\<close>

record 'n bar =
  name :: string
  "value" :: 'n
  fill :: string

text \<open>Both functions close over the state cell \<open>analysisResult\<close>.\<close>

definition prepareNutritionData :: "'n FoodAnalysisResponse session \<Rightarrow> 'n bar list" where
  "prepareNutritionData s =
     (case analysisResult s of
        None \<Rightarrow> []
      | Some r \<Rightarrow>
          [\<lparr>name = ''Carbs'', value = carbohydrates (nutritionalInfo r), fill = ''#4CAF50''\<rparr>,
           \<lparr>name = ''Protein'', value = protein (nutritionalInfo r), fill = ''#2E7D32''\<rparr>,
           \<lparr>name = ''Total Fat'', value = total (fats (nutritionalInfo r)), fill = ''#81C784''\<rparr>,
           \<lparr>name = ''Fiber'', value = fiber (nutritionalInfo r), fill = ''#A5D6A7''\<rparr>,
           \<lparr>name = ''Sugar'', value = sugar (nutritionalInfo r), fill = ''#C8E6C9''\<rparr>])"

definition prepareFatsData :: "'n FoodAnalysisResponse session \<Rightarrow> 'n bar list" where
  "prepareFatsData s =
     (case analysisResult s of
        None \<Rightarrow> []
      | Some r \<Rightarrow>
          [\<lparr>name = ''Saturated'', value = saturated (fats (nutritionalInfo r)), fill = ''#FFA726''\<rparr>,
           \<lparr>name = ''Unsaturated'', value = unsaturated (fats (nutritionalInfo r)), fill = ''#66BB6A''\<rparr>,
           \<lparr>name = ''Trans'', value = trans (fats (nutritionalInfo r)), fill = ''#EF5350''\<rparr>])"

subsection \<open>The image encoder\<close>

text \<open>
  A call that may throw, or a promise that may reject: \<open>Throws\<close> is the exception or the
  rejection, \<open>Returns\<close> the value.
\<close>

datatype 'a outcome = Throws | Returns 'a

text \<open>
  What the browser's \<open>FileReader\<close> does with \<open>readAsDataURL(file)\<close>: it calls \<open>onload\<close> with
  the data URL as \<open>reader.result\<close>, or \<open>onerror\<close>. The reader is not code of the application,
  so its result is an input of the model.
\<close>

datatype read_outcome = Loaded string | ReadFailed

text \<open>\<open>String.prototype.split\<close> with a one-character separator.\<close>

fun split_on :: "char \<Rightarrow> string \<Rightarrow> string list" where
  "split_on c [] = [[]]"
| "split_on c (x # xs) =
     (if x = c then [] # split_on c xs
      else (case split_on c xs of w # ws \<Rightarrow> (x # w) # ws | [] \<Rightarrow> [[x]]))"

text \<open>Indexing a JavaScript array: \<open>undefined\<close> (here \<open>None\<close>) out of range.\<close>

definition index :: "'a list \<Rightarrow> nat \<Rightarrow> 'a option" where
  "index xs i = (if i < length xs then Some (xs ! i) else None)"

definition fileToBase64 :: "read_outcome \<Rightarrow> string option outcome" where
  "fileToBase64 rd =
     (case rd of
        ReadFailed \<Rightarrow> Throws
      | Loaded base64String \<Rightarrow> Returns (index (split_on CHR '','' base64String) 1))"




subsection \<open>The analysis client\<close>

text \<open>
  A JSON value; a JavaScript value that may be \<open>undefined\<close> is a \<open>json option\<close>.
  An object is the list of its members.
\<close>

datatype 'n json =
    JNull
  | JBool bool
  | JNum 'n
  | JStr string
  | JArr "'n json list"
  | JObj "(string \<times> 'n json) list"

text \<open>
  Reading the member \<open>k\<close> of a value, for the three names the client reads (none of them is
  a member of a string, an array, a number or a boolean): a \<open>TypeError\<close> on \<open>undefined\<close> and
  \<open>null\<close>, \<open>undefined\<close> where the member is missing.
\<close>

fun property :: "string \<Rightarrow> 'n json option \<Rightarrow> 'n json option outcome" where
  "property k None = Throws"
| "property k (Some JNull) = Throws"
| "property k (Some (JObj kvs)) = Returns (map_of kvs k)"
| "property k (Some v) = Returns None"

text \<open>Reading \<open>v[0]\<close>: the first element of an array, the first character of a string.\<close>

fun index0 :: "'n json option \<Rightarrow> 'n json option outcome" where
  "index0 None = Throws"
| "index0 (Some JNull) = Throws"
| "index0 (Some (JArr xs)) = Returns (index xs 0)"
| "index0 (Some (JStr s)) = Returns (map_option (\<lambda>c. JStr [c]) (index s 0))"
| "index0 (Some (JObj kvs)) = Returns (map_of kvs ''0'')"
| "index0 (Some v) = Returns None"

text \<open>\<open>response.data.choices[0].message.content\<close>\<close>

definition content_of :: "'n json \<Rightarrow> 'n json option outcome" where
  "content_of data =
     (case property ''choices'' (Some data) of
        Throws \<Rightarrow> Throws
      | Returns choices \<Rightarrow>
          (case index0 choices of
             Throws \<Rightarrow> Throws
           | Returns choice \<Rightarrow>
               (case property ''message'' choice of
                  Throws \<Rightarrow> Throws
                | Returns message \<Rightarrow> property ''content'' message)))"

text \<open>
  The request body, as far as it depends on the image: the other members (the instruction
  text, the temperature, the response format, the authorisation header) are constants.
  A template literal prints \<open>undefined\<close> as the word.
\<close>

record request =
  endpoint :: string
  model :: string
  image_url :: string

definition template :: "string option \<Rightarrow> string" where
  "template v = (case v of None \<Rightarrow> ''undefined'' | Some s \<Rightarrow> s)"

definition request_for :: "string option \<Rightarrow> request" where
  "request_for base64Image =
     \<lparr>endpoint = ''https://api.groq.com/openai/v1/chat/completions'',
      model = ''llama-3.2-90b-vision-preview'',
      image_url = ''data:image/jpeg;base64,'' @ template base64Image\<rparr>"

text \<open>
  \<open>analyzeFoodImage\<close>. The two calls into the platform are parameters: \<open>JSON_parse\<close> is
  \<open>JSON.parse\<close> (it throws a \<open>SyntaxError\<close> on a text that is not JSON; its argument may be
  any value), \<open>post\<close> is \<open>axios.post\<close> and yields \<open>response.data\<close> (it throws when the request
  fails); \<open>rd\<close> is what reading \<open>imageFile\<close> gives. Every exception of the \<open>try\<close> block is
  caught and replaced by the one error; the parsed value is returned behind a type
  assertion, which checks nothing at run time, so the result is a JSON value.
\<close>

definition analyzeFoodImage ::
  "('n json option \<Rightarrow> 'n json outcome) \<Rightarrow> (request \<Rightarrow> 'n json outcome) \<Rightarrow> read_outcome
     \<Rightarrow> string + 'n json" where
  "analyzeFoodImage JSON_parse post rd =
     (case fileToBase64 rd of
        Throws \<Rightarrow> Inl ''Failed to analyze food image''
      | Returns base64Image \<Rightarrow>
          (case post (request_for base64Image) of
             Throws \<Rightarrow> Inl ''Failed to analyze food image''
           | Returns data \<Rightarrow>
               (case content_of data of
                  Throws \<Rightarrow> Inl ''Failed to analyze food image''
                | Returns content \<Rightarrow>
                    (case JSON_parse content of
                       Throws \<Rightarrow> Inl ''Failed to analyze food image''
                     | Returns jsonContent \<Rightarrow> Inr jsonContent))))"

text \<open>
  The shape of the interface \<open>FoodAnalysisResponse\<close>, read off a JSON value: \<open>None\<close> when a
  member is missing or has another type.
\<close>

fun member :: "string \<Rightarrow> 'n json \<Rightarrow> 'n json option" where
  "member k (JObj kvs) = map_of kvs k"
| "member k v = None"

fun as_number :: "'n json \<Rightarrow> 'n option" where
  "as_number (JNum n) = Some n"
| "as_number v = None"

fun as_boolean :: "'n json \<Rightarrow> bool option" where
  "as_boolean (JBool b) = Some b"
| "as_boolean v = None"

fun as_string :: "'n json \<Rightarrow> string option" where
  "as_string (JStr s) = Some s"
| "as_string v = None"

fun all_some :: "'a option list \<Rightarrow> 'a list option" where
  "all_some [] = Some []"
| "all_some (None # xs) = None"
| "all_some (Some x # xs) = map_option ((#) x) (all_some xs)"

fun as_strings :: "'n json \<Rightarrow> string list option" where
  "as_strings (JArr xs) = all_some (map as_string xs)"
| "as_strings v = None"

definition number_at :: "string \<Rightarrow> 'n json \<Rightarrow> 'n option" where
  "number_at k v = Option.bind (member k v) as_number"

definition as_Fats :: "'n json \<Rightarrow> 'n Fats option" where
  "as_Fats v =
     Option.bind (number_at ''total'' v) (\<lambda>t.
     Option.bind (number_at ''saturated'' v) (\<lambda>s.
     Option.bind (number_at ''unsaturated'' v) (\<lambda>u.
     Option.bind (number_at ''trans'' v) (\<lambda>tr.
       Some \<lparr>total = t, saturated = s, unsaturated = u, trans = tr\<rparr>))))"

definition as_NutritionalInfo :: "'n json \<Rightarrow> 'n NutritionalInfo option" where
  "as_NutritionalInfo v =
     Option.bind (Option.bind (member ''fats'' v) as_Fats) (\<lambda>f.
     Option.bind (number_at ''protein'' v) (\<lambda>p.
     Option.bind (number_at ''carbohydrates'' v) (\<lambda>c.
     Option.bind (number_at ''sugar'' v) (\<lambda>su.
     Option.bind (number_at ''fiber'' v) (\<lambda>fi.
       Some \<lparr>fats = f, protein = p, carbohydrates = c, sugar = su, fiber = fi\<rparr>)))))"

definition as_HealthAssessment :: "'n json \<Rightarrow> HealthAssessment option" where
  "as_HealthAssessment v =
     Option.bind (Option.bind (member ''isHealthy'' v) as_boolean) (\<lambda>h.
     Option.bind (Option.bind (member ''recommendedConsumption'' v) as_string) (\<lambda>r.
     Option.bind (Option.bind (member ''warnings'' v) as_strings) (\<lambda>w.
     Option.bind (Option.bind (member ''benefits'' v) as_strings) (\<lambda>b.
       Some \<lparr>isHealthy = h, recommendedConsumption = r, warnings = w, benefits = b\<rparr>))))"

definition as_FoodAnalysisResponse :: "'n json \<Rightarrow> 'n FoodAnalysisResponse option" where
  "as_FoodAnalysisResponse v =
     Option.bind (number_at ''calories'' v) (\<lambda>c.
     Option.bind (Option.bind (member ''contents'' v) as_strings) (\<lambda>cs.
     Option.bind (Option.bind (member ''nutritionalInfo'' v) as_NutritionalInfo) (\<lambda>ni.
     Option.bind (Option.bind (member ''healthAssessment'' v) as_HealthAssessment) (\<lambda>ha.
       Some \<lparr>calories = c, contents = cs, nutritionalInfo = ni, healthAssessment = ha\<rparr>))))"

text \<open>
  What \<open>handleAnalyze\<close> gets from \<open>await analyzeFoodImage(selectedFile)\<close>: the rejection, or
  the returned JSON value, of which \<open>null\<close> is the null of the state cell.
\<close>

fun nullable :: "'n json \<Rightarrow> 'n json option" where
  "nullable JNull = None"
| "nullable v = Some v"

definition analysis_event :: "string + 'n json \<Rightarrow> 'n json event" where
  "analysis_event out =
     AnalyzeSettled (case out of Inl e \<Rightarrow> Inl e | Inr v \<Rightarrow> Inr (nullable v))"

subsection \<open>Example inputs\<close>

definition meal_jpg :: File where
  "meal_jpg = \<lparr>filename = ''meal.jpg'', type = ''image/jpeg''\<rparr>"

definition salad_png :: File where
  "salad_png = \<lparr>filename = ''salad.png'', type = ''image/png''\<rparr>"

definition notes_txt :: File where
  "notes_txt = \<lparr>filename = ''notes.txt'', type = ''text/plain''\<rparr>"


text \<open>The reply of the specification's end-to-end scenario A.\<close>

definition scenarioA :: "int FoodAnalysisResponse" where
  "scenarioA =
     \<lparr>calories = 350,
      contents = [''grilled chicken'', ''rice'', ''broccoli''],
      nutritionalInfo =
        \<lparr>fats = \<lparr>total = 8, saturated = 2, unsaturated = 5, trans = 1\<rparr>,
         protein = 30, carbohydrates = 40, sugar = 3, fiber = 5\<rparr>,
      healthAssessment =
        \<lparr>isHealthy = True, recommendedConsumption = ''Suitable as a main meal'',
         warnings = [], benefits = [''High protein'']\<rparr>\<rparr>"

definition meal_url :: string where
  "meal_url = ''data:image/jpeg;base64,/9j/4AAQSkZJRg==''"

definition salad_url :: string where
  "salad_url = ''data:image/png;base64,iVBORw0KGgo=''"

text \<open>A session in which \<open>meal.jpg\<close> was selected and analysed with success.\<close>

definition analysed :: "int FoodAnalysisResponse session" where
  "analysed = run [FileChange (Some [meal_jpg]), ReaderLoad meal_url, AnalyzeClick,
                   AnalyzeSettled (Inr (Some scenarioA))]"

text \<open>A session in which \<open>meal.jpg\<close> was selected and its analysis is in flight.\<close>

definition analysing :: "int FoodAnalysisResponse session" where
  "analysing = run [FileChange (Some [meal_jpg]), ReaderLoad meal_url, AnalyzeClick]"

text \<open>Example replies of the external service.\<close>

definition scenarioA_json :: "int json" where
  "scenarioA_json =
     JObj [(''calories'', JNum 350),
           (''contents'', JArr [JStr ''grilled chicken'', JStr ''rice'', JStr ''broccoli'']),
           (''nutritionalInfo'',
              JObj [(''fats'', JObj [(''total'', JNum 8), (''saturated'', JNum 2),
                                     (''unsaturated'', JNum 5), (''trans'', JNum 1)]),
                    (''protein'', JNum 30), (''carbohydrates'', JNum 40),
                    (''sugar'', JNum 3), (''fiber'', JNum 5)]),
           (''healthAssessment'',
              JObj [(''isHealthy'', JBool True),
                    (''recommendedConsumption'', JStr ''Suitable as a main meal''),
                    (''warnings'', JArr []),
                    (''benefits'', JArr [JStr ''High protein''])])]"

text \<open>The body of a chat completion whose message content is the text \<open>c\<close>.\<close>

definition completion :: "string \<Rightarrow> 'n json" where
  "completion c = JObj [(''choices'', JArr [JObj [(''message'', JObj [(''content'', JStr c)])]])]"

definition scenarioA_text :: string where
  \<open>scenarioA_text = ''{"calories":350,"contents":["grilled chicken","rice","broccoli"],"nutritionalInfo":{"fats":{"total":8,"saturated":2,"unsaturated":5,"trans":1},"protein":30,"carbohydrates":40,"sugar":3,"fiber":5},"healthAssessment":{"isHealthy":true,"recommendedConsumption":"Suitable as a main meal","warnings":[],"benefits":["High protein"]}}''\<close>

text \<open>
  \<open>JSON.parse\<close> on the two texts of the examples, the empty object and the reply of
  scenario A; on any other argument this stand-in throws.
\<close>

definition parse_example :: "int json option \<Rightarrow> int json outcome" where
  "parse_example v =
     (if v = Some (JStr ''{}'') then Returns (JObj [])
      else if v = Some (JStr scenarioA_text) then Returns scenarioA_json
      else Throws)"

text \<open>Two services: one answers every request with \<open>{}\<close>, one with the reply of scenario A.\<close>

definition reply_empty_object :: "request \<Rightarrow> int json outcome" where
  "reply_empty_object r = Returns (completion ''{}'')"

definition reply_scenarioA :: "request \<Rightarrow> int json outcome" where
  "reply_scenarioA r = Returns (completion scenarioA_text)"

section \<open>Properties of the controller\<close>

lemma analysed_eq:
  "analysed = \<lparr>selectedFile = Some meal_jpg, imagePreview = Some meal_url,
                analysisResult = Some scenarioA, isLoading = False, error = None\<rparr>"
  by (simp add: analysed_def run_def initial_def handleFileChange_def startsWith_def
      reader_onload_def handleAnalyze_def handleAnalyze_settled_def meal_jpg_def)

lemma analysing_eq:
  "analysing = \<lparr>selectedFile = Some meal_jpg, imagePreview = Some meal_url,
                 analysisResult = None, isLoading = True, error = None\<rparr>"
  by (simp add: analysing_def run_def initial_def handleFileChange_def startsWith_def
      reader_onload_def handleAnalyze_def meal_jpg_def)

lemma image_files [simp]:
  "startsWith (type meal_jpg) ''image/''" "startsWith (type salad_png) ''image/''"
  "\<not> startsWith (type notes_txt) ''image/''"
  by (simp_all add: startsWith_def meal_jpg_def salad_png_def notes_txt_def)

text \<open>
  C6. A file whose declared media type does not begin with \<open>image/\<close> is rejected: the
  type-rejection message is stored at once, every other cell of the session (the loading
  flag among them) stays as it was, and no work is started: neither a read of the file for
  a preview nor an analysis, hence no network call.
\<close>

theorem handleFileChange_rejects_non_image:
  assumes "\<not> startsWith (type f) ''image/''"
  shows "handleFileChange (Some (f # fs)) s =
           (s\<lparr>error := Some ''Please select an image file''\<rparr>, [])"
  using assms by (simp add: handleFileChange_def)

theorem handleFileChange_rejects_non_image_witness:
  "\<not> startsWith (type notes_txt) ''image/'' \<and>
   handleFileChange (Some [notes_txt]) (initial :: nat session) =
     (\<lparr>selectedFile = None, imagePreview = None, analysisResult = None,
       isLoading = False, error = Some ''Please select an image file''\<rparr>, [])"
proof -
  have h: "\<not> startsWith (type notes_txt) ''image/''"
    by (simp add: startsWith_def notes_txt_def)
  show ?thesis
    using h handleFileChange_rejects_non_image [OF h, of "[]" "initial :: nat session"]
    by (simp add: initial_def)
qed

text \<open>
  C8. With no file selected, \<open>handleAnalyze\<close> stores the message that an image must be
  selected first and changes nothing else: the loading flag is not set and no analysis, hence
  no network call, is started.
\<close>

theorem handleAnalyze_without_file:
  assumes "selectedFile s = None"
  shows "handleAnalyze s = (s\<lparr>error := Some ''Please select an image first''\<rparr>, [])"
  using assms by (simp add: handleAnalyze_def)

theorem handleAnalyze_without_file_witness:
  "selectedFile (initial :: nat session) = None \<and>
   handleAnalyze (initial :: nat session) =
     (\<lparr>selectedFile = None, imagePreview = None, analysisResult = None,
       isLoading = False, error = Some ''Please select an image first''\<rparr>, [])"
proof -
  have h: "selectedFile (initial :: nat session) = None"
    by (simp add: initial_def)
  show ?thesis
    using h handleAnalyze_without_file [OF h] by (simp add: initial_def)
qed

text \<open>
  C10. A change event that delivers no file (the file list is \<open>null\<close> or empty) clears the
  error message and leaves the selected file, the preview, the result and the loading flag
  as they were; no work is started.
\<close>

theorem handleFileChange_no_file:
  "handleFileChange None s = (s\<lparr>error := None\<rparr>, []) \<and>
   handleFileChange (Some []) s = (s\<lparr>error := None\<rparr>, [])"
  by (simp add: handleFileChange_def)

text \<open>
  C7. Whatever the outcome of the analysis, the continuation of \<open>handleAnalyze\<close> clears the
  loading flag: on success the value the analysis resolved with is written into the result
  cell (the value \<open>null\<close> leaves the cell empty), on failure the fixed error message is stored.
  The last two conjuncts say the same of the values \<open>analyzeFoodImage\<close> returns.
\<close>

theorem handleAnalyze_settled_clears_loading:
  "isLoading (handleAnalyze_settled outcome s) = False \<and>
   handleAnalyze_settled (Inr result) s = s\<lparr>analysisResult := result, isLoading := False\<rparr> \<and>
   handleAnalyze_settled (Inl e) s =
     s\<lparr>error := Some ''Failed to analyze image. Please try again.'', isLoading := False\<rparr> \<and>
   step t (analysis_event (Inr v)) = t\<lparr>analysisResult := nullable v, isLoading := False\<rparr> \<and>
   step t (analysis_event (Inl e)) =
     t\<lparr>error := Some ''Failed to analyze image. Please try again.'', isLoading := False\<rparr>"
  by (cases outcome) (simp_all add: handleAnalyze_settled_def analysis_event_def)

text \<open>
  C9. Selecting a non-image file changes the error message only: the selected file, the
  preview, the result and the loading flag stay as they were, so an old result stays on
  display beside the new error, and \<open>handleAnalyze\<close> still starts an analysis of the old file.
\<close>

theorem rejected_file_keeps_selection:
  assumes "\<not> startsWith (type f) ''image/''"
  shows "selectedFile (step s (FileChange (Some (f # fs)))) = selectedFile s \<and>
         imagePreview (step s (FileChange (Some (f # fs)))) = imagePreview s \<and>
         analysisResult (step s (FileChange (Some (f # fs)))) = analysisResult s \<and>
         isLoading (step s (FileChange (Some (f # fs)))) = isLoading s \<and>
         error (step s (FileChange (Some (f # fs)))) = Some ''Please select an image file'' \<and>
         (selectedFile s = Some g \<longrightarrow>
            snd (handleAnalyze (step s (FileChange (Some (f # fs))))) = [AnalyzeFoodImage g])"
  using assms by (simp add: handleFileChange_def handleAnalyze_def)

theorem rejected_file_keeps_selection_witness:
  "\<not> startsWith (type notes_txt) ''image/'' \<and>
   selectedFile analysed = Some meal_jpg \<and>
   step analysed (FileChange (Some [notes_txt])) =
     \<lparr>selectedFile = Some meal_jpg, imagePreview = Some meal_url,
      analysisResult = Some scenarioA, isLoading = False,
      error = Some ''Please select an image file''\<rparr> \<and>
   snd (handleAnalyze (step analysed (FileChange (Some [notes_txt])))) =
     [AnalyzeFoodImage meal_jpg]"
proof -
  have h: "\<not> startsWith (type notes_txt) ''image/''" by simp
  have g: "selectedFile analysed = Some meal_jpg" by (simp add: analysed_eq)
  from rejected_file_keeps_selection [OF h, of analysed "[]" meal_jpg] g
  have "snd (handleAnalyze (step analysed (FileChange (Some [notes_txt])))) =
          [AnalyzeFoodImage meal_jpg]"
    by simp
  moreover have "step analysed (FileChange (Some [notes_txt])) =
     \<lparr>selectedFile = Some meal_jpg, imagePreview = Some meal_url,
      analysisResult = Some scenarioA, isLoading = False,
      error = Some ''Please select an image file''\<rparr>"
    by (simp add: analysed_eq handleFileChange_def)
  ultimately show ?thesis using h g by simp
qed

text \<open>
  C5, as the specification states it, fails: selecting a new valid file while an analysis is
  in flight leaves the loading flag set, since \<open>handleFileChange\<close> never writes it.
\<close>

theorem select_while_loading_stays_loading:
  "startsWith (type salad_png) ''image/'' \<and>
   isLoading analysing \<and>
   isLoading (step analysing (FileChange (Some [salad_png])))"
  by (simp add: analysing_eq handleFileChange_def)

text \<open>
  C5, amended. Selecting a valid image file always clears the result and the error message,
  stores the file, starts the read of its preview and leaves the loading flag as it was.
  Two valid selections in succession, each followed by the end of its preview read, leave
  result and error absent and keep the second file and the second preview only; the
  loading flag is the one the session had before.
\<close>

theorem valid_file_selection:
  assumes "startsWith (type f) ''image/''" and "startsWith (type f') ''image/''"
  shows "handleFileChange (Some (f # fs)) s =
           (s\<lparr>selectedFile := Some f, analysisResult := None, error := None\<rparr>,
            [ReadAsDataURL f]) \<and>
         foldl step s [FileChange (Some (f # fs)), ReaderLoad d,
                       FileChange (Some (f' # fs')), ReaderLoad d'] =
           s\<lparr>selectedFile := Some f', imagePreview := Some d', analysisResult := None,
             error := None\<rparr>"
  using assms by (simp add: handleFileChange_def reader_onload_def)

theorem valid_file_selection_witness:
  "startsWith (type meal_jpg) ''image/'' \<and> startsWith (type salad_png) ''image/'' \<and>
   meal_jpg \<noteq> salad_png \<and>
   foldl step analysed [FileChange (Some [meal_jpg]), ReaderLoad meal_url,
                        FileChange (Some [salad_png]), ReaderLoad salad_url] =
     \<lparr>selectedFile = Some salad_png, imagePreview = Some salad_url, analysisResult = None,
      isLoading = False, error = None\<rparr>"
proof -
  have h1: "startsWith (type meal_jpg) ''image/''"
    and h2: "startsWith (type salad_png) ''image/''"
    by simp_all
  have d: "meal_jpg \<noteq> salad_png"
    by (simp add: meal_jpg_def salad_png_def)
  note two = valid_file_selection [OF h1 h2, of "[]" analysed meal_url "[]" salad_url,
      THEN conjunct2]
  have "foldl step analysed [FileChange (Some [meal_jpg]), ReaderLoad meal_url,
                        FileChange (Some [salad_png]), ReaderLoad salad_url] =
     \<lparr>selectedFile = Some salad_png, imagePreview = Some salad_url, analysisResult = None,
      isLoading = False, error = None\<rparr>"
    unfolding two by (simp add: analysed_eq)
  with h1 h2 d show ?thesis by blast
qed

text \<open>
  C1, as the specification states it, fails. After a successful analysis the result stays
  stored when a non-image file is then chosen, and when a second analysis of the same file
  is started and fails: in both sessions a result and an error message are present together.
  While the second analysis is in flight the result is present in a loading session.
\<close>

theorem result_and_error_together:
  "analysisResult (step analysed (FileChange (Some [notes_txt]))) = Some scenarioA \<and>
   error (step analysed (FileChange (Some [notes_txt]))) = Some ''Please select an image file'' \<and>
   isLoading (step analysed AnalyzeClick) \<and>
   analysisResult (step analysed AnalyzeClick) = Some scenarioA \<and>
   analysisResult (foldl step analysed [AnalyzeClick, AnalyzeSettled (Inl ''Failed to analyze food image'')])
     = Some scenarioA \<and>
   error (foldl step analysed [AnalyzeClick, AnalyzeSettled (Inl ''Failed to analyze food image'')])
     = Some ''Failed to analyze image. Please try again.''"
  by (simp add: analysed_eq handleFileChange_def handleAnalyze_def handleAnalyze_settled_def)

text \<open>
  C1, amended. The session starts with neither a result nor an error, and for each operation
  it is decided when the state after it holds at most one of the two.
  A change event that delivers a valid image clears both, one that delivers no file clears
  the error, the end of a preview read touches neither, and \<open>handleAnalyze\<close> with a file
  selected clears the error: after these the two are exclusive whenever they were before
  (for the first and the last, always). A rejected file, \<open>handleAnalyze\<close> with no file and
  an analysis failure store an error and keep the result: after them the two are exclusive
  exactly when no result was stored. An analysis success writes the value it resolved with
  into the result cell and keeps the error: after it the two are exclusive exactly when
  that value is \<open>null\<close> or no error was stored. Only an analysis success with a value other
  than \<open>null\<close> stores a result.
\<close>

theorem exclusive_after_step:
  "analysisResult (initial :: 'r session) = None \<and>
   error (initial :: 'r session) = None \<and>
   exclusive (step s (FileChange files)) =
     (case first_file files of
        None \<Rightarrow> True
      | Some f \<Rightarrow> startsWith (type f) ''image/'' \<or> analysisResult s = None) \<and>
   exclusive (step s (ReaderLoad d)) = exclusive s \<and>
   exclusive (step s AnalyzeClick) = (selectedFile s \<noteq> None \<or> analysisResult s = None) \<and>
   exclusive (step s (AnalyzeSettled (Inr result))) = (result = None \<or> error s = None) \<and>
   exclusive (step s (AnalyzeSettled (Inl e))) = (analysisResult s = None) \<and>
   (analysisResult (step s ev) \<noteq> None \<longrightarrow>
      analysisResult s \<noteq> None \<or> (\<exists>r'. ev = AnalyzeSettled (Inr (Some r'))))"
proof -
  have "analysisResult (step s ev) \<noteq> None \<longrightarrow>
          analysisResult s \<noteq> None \<or> (\<exists>r'. ev = AnalyzeSettled (Inr (Some r')))"
  proof (cases ev)
    case (FileChange fl)
    then show ?thesis
      by (simp add: handleFileChange_def Let_def split: option.splits)
  next
    case (ReaderLoad u)
    then show ?thesis by (simp add: reader_onload_def)
  next
    case AnalyzeClick
    then show ?thesis by (simp add: handleAnalyze_def split: option.splits)
  next
    case (AnalyzeSettled outcome)
    then show ?thesis
      by (cases outcome) (auto simp add: handleAnalyze_settled_def)
  qed
  moreover have "analysisResult (initial :: 'r session) = None"
    and "error (initial :: 'r session) = None"
    by (simp_all add: initial_def)
  moreover have "exclusive (step s (FileChange files)) =
     (case first_file files of
        None \<Rightarrow> True
      | Some f \<Rightarrow> startsWith (type f) ''image/'' \<or> analysisResult s = None)"
    by (simp add: exclusive_def handleFileChange_def Let_def split: option.splits)
  moreover have "exclusive (step s (ReaderLoad d)) = exclusive s"
    by (simp add: exclusive_def reader_onload_def)
  moreover have "exclusive (step s AnalyzeClick) =
                   (selectedFile s \<noteq> None \<or> analysisResult s = None)"
    by (auto simp add: exclusive_def handleAnalyze_def split: option.splits)
  moreover have "exclusive (step s (AnalyzeSettled (Inr result))) =
                   (result = None \<or> error s = None)"
    by (simp add: exclusive_def handleAnalyze_settled_def)
  moreover have "exclusive (step s (AnalyzeSettled (Inl e))) = (analysisResult s = None)"
    by (simp add: exclusive_def handleAnalyze_settled_def)
  ultimately show ?thesis by blast
qed

theorem exclusive_after_step_witness:
  "selectedFile analysed \<noteq> None \<and> analysisResult analysed \<noteq> None \<and>
   exclusive analysed \<and>
   exclusive (step analysed (FileChange (Some [salad_png]))) \<and>
   \<not> exclusive (step analysed (FileChange (Some [notes_txt]))) \<and>
   exclusive (step analysed AnalyzeClick) \<and>
   exclusive (step analysed (AnalyzeSettled (Inr (Some scenarioA)))) \<and>
   \<not> exclusive (step analysed (AnalyzeSettled (Inl ''Failed to analyze food image''))) \<and>
   error (step analysed (FileChange (Some [notes_txt]))) \<noteq> None \<and>
   \<not> exclusive (step (step analysed (FileChange (Some [notes_txt])))
                   (AnalyzeSettled (Inr (Some scenarioA)))) \<and>
   exclusive (step (step analysed (FileChange (Some [notes_txt]))) (AnalyzeSettled (Inr None)))"
proof -
  have a: "selectedFile analysed \<noteq> None" "analysisResult analysed \<noteq> None"
    "error analysed = None"
    by (simp_all add: analysed_eq)
  have b: "exclusive analysed"
    by (simp add: exclusive_def analysed_eq)
  note accepted = exclusive_after_step [of analysed "Some [salad_png]" meal_url
        "Some scenarioA" "''Failed to analyze food image''" AnalyzeClick]
  note rejected = exclusive_after_step [of analysed "Some [notes_txt]" meal_url
        "Some scenarioA" "''Failed to analyze food image''" AnalyzeClick]
  have c: "exclusive (step analysed (FileChange (Some [salad_png])))"
    unfolding accepted [THEN conjunct2, THEN conjunct2, THEN conjunct1] by simp
  have d: "\<not> exclusive (step analysed (FileChange (Some [notes_txt])))"
    unfolding rejected [THEN conjunct2, THEN conjunct2, THEN conjunct1] using a by simp
  have e: "exclusive (step analysed AnalyzeClick)"
    unfolding accepted [THEN conjunct2, THEN conjunct2, THEN conjunct2, THEN conjunct2,
        THEN conjunct1]
    using a by simp
  have f: "exclusive (step analysed (AnalyzeSettled (Inr (Some scenarioA))))"
    unfolding accepted [THEN conjunct2, THEN conjunct2, THEN conjunct2, THEN conjunct2,
        THEN conjunct2, THEN conjunct1]
    using a by simp
  have g: "\<not> exclusive (step analysed (AnalyzeSettled (Inl ''Failed to analyze food image'')))"
    unfolding accepted [THEN conjunct2, THEN conjunct2, THEN conjunct2, THEN conjunct2,
        THEN conjunct2, THEN conjunct2, THEN conjunct1]
    using a by simp
  have h: "error (step analysed (FileChange (Some [notes_txt]))) \<noteq> None"
    by (simp add: analysed_eq handleFileChange_def)
  note value_stored = exclusive_after_step [of "step analysed (FileChange (Some [notes_txt]))"
        None meal_url "Some scenarioA" "''Failed to analyze food image''" AnalyzeClick]
  note null_stored = exclusive_after_step [of "step analysed (FileChange (Some [notes_txt]))"
        None meal_url None "''Failed to analyze food image''" AnalyzeClick]
  have i: "\<not> exclusive (step (step analysed (FileChange (Some [notes_txt])))
                   (AnalyzeSettled (Inr (Some scenarioA))))"
    unfolding value_stored [THEN conjunct2, THEN conjunct2, THEN conjunct2, THEN conjunct2,
        THEN conjunct2, THEN conjunct1]
    using h by simp
  have j: "exclusive (step (step analysed (FileChange (Some [notes_txt])))
                   (AnalyzeSettled (Inr None)))"
    unfolding null_stored [THEN conjunct2, THEN conjunct2, THEN conjunct2, THEN conjunct2,
        THEN conjunct2, THEN conjunct1]
    by simp
  from a b c d e f g h i j show ?thesis by blast
qed

section \<open>Properties of the chart transforms, the encoder and the client\<close>
















text \<open>
  C3. When an analysis is stored, \<open>prepareNutritionData\<close> returns five bars labelled Carbs,
  Protein, Total Fat, Fiber, Sugar in this order and \<open>prepareFatsData\<close> three bars labelled
  Saturated, Unsaturated, Trans, each value being the corresponding field of the analysis
  unchanged; when none is stored both return the empty list.
\<close>

theorem chart_series:
  "(analysisResult s = Some r \<longrightarrow>
      length (prepareNutritionData s) = 5 \<and>
      map name (prepareNutritionData s) = [''Carbs'', ''Protein'', ''Total Fat'', ''Fiber'', ''Sugar''] \<and>
      map value (prepareNutritionData s) =
        [carbohydrates (nutritionalInfo r), protein (nutritionalInfo r),
         total (fats (nutritionalInfo r)), fiber (nutritionalInfo r), sugar (nutritionalInfo r)] \<and>
      length (prepareFatsData s) = 3 \<and>
      map name (prepareFatsData s) = [''Saturated'', ''Unsaturated'', ''Trans''] \<and>
      map value (prepareFatsData s) =
        [saturated (fats (nutritionalInfo r)), unsaturated (fats (nutritionalInfo r)),
         trans (fats (nutritionalInfo r))]) \<and>
   (analysisResult s = None \<longrightarrow> prepareNutritionData s = [] \<and> prepareFatsData s = [])"
  by (simp add: prepareNutritionData_def prepareFatsData_def)

theorem chart_series_witness:
  "analysisResult analysed = Some scenarioA \<and>
   map name (prepareNutritionData analysed) = [''Carbs'', ''Protein'', ''Total Fat'', ''Fiber'', ''Sugar''] \<and>
   map value (prepareNutritionData analysed) = [40, 30, 8, 5, 3] \<and>
   map name (prepareFatsData analysed) = [''Saturated'', ''Unsaturated'', ''Trans''] \<and>
   map value (prepareFatsData analysed) = [2, 5, 1] \<and>
   analysisResult analysing = None \<and>
   prepareNutritionData analysing = [] \<and> prepareFatsData analysing = []"
proof -
  have a: "analysisResult analysed = Some scenarioA"
    by (simp add: analysed_eq)
  have b: "analysisResult analysing = None"
    by (simp add: analysing_eq)
  show ?thesis
    using a b chart_series [of analysed scenarioA] chart_series [of analysing scenarioA]
    by (simp add: scenarioA_def)
qed

text \<open>
  C2, amended. \<open>analyzeFoodImage\<close> fails, always with the one error
  \<open>Failed to analyze food image\<close>, exactly when the read of the image file fails, the HTTP
  call fails, the reply has no value at \<open>choices[0].message.content\<close> to read, or
  \<open>JSON.parse\<close> throws on that content. In every other case it returns the value
  \<open>JSON.parse\<close> gave, whatever its shape.
\<close>

theorem analyzeFoodImage_outcome:
  "(analyzeFoodImage JSON_parse post rd = Inr j) =
     (\<exists>d data c. rd = Loaded d \<and>
        post (request_for (index (split_on CHR '','' d) 1)) = Returns data \<and>
        content_of data = Returns c \<and> JSON_parse c = Returns j) \<and>
   (analyzeFoodImage JSON_parse post rd = Inl e) =
     (e = ''Failed to analyze food image'' \<and>
      (rd = ReadFailed \<or>
       (\<exists>d. rd = Loaded d \<and>
          (post (request_for (index (split_on CHR '','' d) 1)) = Throws \<or>
           (\<exists>data. post (request_for (index (split_on CHR '','' d) 1)) = Returns data \<and>
              (content_of data = Throws \<or>
               (\<exists>c. content_of data = Returns c \<and> JSON_parse c = Throws)))))))"
  by (auto simp: analyzeFoodImage_def fileToBase64_def
      split: read_outcome.splits outcome.splits)

theorem analyzeFoodImage_outcome_witness:
  "analyzeFoodImage parse_example reply_scenarioA (Loaded meal_url) = Inr scenarioA_json \<and>
   as_FoodAnalysisResponse scenarioA_json = Some scenarioA \<and>
   (\<forall>e. analyzeFoodImage parse_example reply_scenarioA (Loaded meal_url) \<noteq> Inl e)"
proof -
  have "\<exists>d data c. Loaded meal_url = Loaded d \<and>
          reply_scenarioA (request_for (index (split_on CHR '','' d) 1)) = Returns data \<and>
          content_of data = Returns c \<and> parse_example c = Returns scenarioA_json"
    by (simp add: reply_scenarioA_def completion_def content_of_def index_def
        parse_example_def scenarioA_text_def)
  then have ok: "analyzeFoodImage parse_example reply_scenarioA (Loaded meal_url) =
                   Inr scenarioA_json"
    unfolding analyzeFoodImage_outcome [THEN conjunct1] .
  moreover have "as_FoodAnalysisResponse scenarioA_json = Some scenarioA"
    by (simp add: as_FoodAnalysisResponse_def scenarioA_json_def scenarioA_def number_at_def
        as_NutritionalInfo_def as_Fats_def as_HealthAssessment_def)
  ultimately show ?thesis by simp
qed

text \<open>
  C2, as the specification states it, fails. A reply whose content is the text \<open>{}\<close> parses
  as JSON but has none of the members of \<open>FoodAnalysisResponse\<close>; \<open>analyzeFoodImage\<close>
  returns it and does not fail. And it fails when the read of the image file fails, although
  the service would have answered.
\<close>

theorem analyzeFoodImage_unvalidated:
  "analyzeFoodImage parse_example reply_empty_object (Loaded meal_url) = Inr (JObj []) \<and>
   as_FoodAnalysisResponse (JObj [] :: int json) = None \<and>
   analyzeFoodImage parse_example reply_empty_object ReadFailed =
     Inl ''Failed to analyze food image''"
  by (simp add: analyzeFoodImage_def fileToBase64_def reply_empty_object_def completion_def
      content_of_def index_def parse_example_def as_FoodAnalysisResponse_def
      number_at_def)

end
